theory Spec2Isabelle
  imports Main "HOL-Library.Word" "HOL-Library.Sublist"
begin

section \<open>ThingiverseService: the bridge between the Thingiverse API client and the UI\<close>

text \<open>
  A shallow embedding of \<^verbatim>\<open>thingiverse/ThingiverseService.py\<close>. The class is a
  Qt object: its fields are the record \<open>service\<close>, each method is a function from the
  fields before the call to the fields after it together with the list of things the
  method did to the outside, in the order it did them (signals emitted, requests handed
  to the API client, calls into the host application). A method that can raise returns
  a sum, \<open>Inl\<close> the exception.

  Strings are lists of 8-bit characters; text outside ASCII is carried in UTF-8, where the
  bytes of \<^verbatim>\<open>.\<close> occur only as that character, so that finding, cutting at and stripping
  dots, and comparing strings, give what Python gives on the text. Python integers do not
  overflow: page numbers and identifiers are \<open>int\<close>.
\<close>

subsection \<open>Python values\<close>

text \<open>
  Modelled from the spec: the class \<^verbatim>\<open>JSONObject\<close> of \<^verbatim>\<open>ThingiverseApiClient.py\<close> is not
  among the sources. The spec calls the objects the API client delivers opaque records
  parsed from the responses; the service reads them only through attribute access,
  \<^verbatim>\<open>hasattr\<close>, \<^verbatim>\<open>__dict__\<close> and truth value. A \<open>JSONObject\<close> is therefore a plain
  attribute holder: its \<^verbatim>\<open>__dict__\<close> as an association list in insertion order, every
  instance true as a condition. Attribute values are JSON values; a nested object is
  \<open>PyObj\<close> of its \<^verbatim>\<open>__dict__\<close>. Floating point numbers are left out: no code of the service
  looks at a number.
\<close>

datatype py_value =
    PyNone
  | PyBool bool
  | PyInt int
  | PyStr string
  | PyList "py_value list"
  | PyObj "(string \<times> py_value) list"

type_synonym py_dict = "(string \<times> py_value) list"

datatype JSONObject = JSONObject (dict_of: py_dict)

datatype py_error = AttributeError | TypeError | OSError

definition hasattr :: "JSONObject \<Rightarrow> string \<Rightarrow> bool" where
  "hasattr obj attr = (map_of (dict_of obj) attr \<noteq> None)"

definition getattr :: "JSONObject \<Rightarrow> string \<Rightarrow> py_error + py_value" where
  "getattr obj attr =
     (case map_of (dict_of obj) attr of
        None \<Rightarrow> Inl AttributeError
      | Some v \<Rightarrow> Inr v)"

subsection \<open>Operations on strings\<close>

text \<open>\<^verbatim>\<open>s.rfind(c)\<close>: the index of the last \<open>c\<close> in \<open>s\<close>, \<open>-1\<close> when there is none.\<close>

definition rfind :: "char \<Rightarrow> string \<Rightarrow> int" where
  "rfind c s =
     (if c \<in> set s
      then int (length s) - 1 - int (length (takeWhile (\<lambda>x. x \<noteq> c) (rev s)))
      else - 1)"

text \<open>\<^verbatim>\<open>s.strip(c)\<close> for a single character \<open>c\<close>: every leading and every trailing \<open>c\<close> removed.\<close>

definition strip :: "char \<Rightarrow> string \<Rightarrow> string" where
  "strip c s = rev (dropWhile (\<lambda>x. x = c) (rev (dropWhile (\<lambda>x. x = c) s)))"

subsection \<open>What the service does to the outside\<close>

datatype signal =
    thingsChanged
  | activeThingChanged
  | activeThingFilesChanged
  | downloadingStateChanged

text \<open>
  The bound methods the service hands to the API client as callbacks. The download
  callback is a lambda that closes over the file name.
\<close>

datatype callback =
    CbSearchFinished
  | CbRequestFailed
  | CbThingDetailsFinished
  | CbThingFilesFinished
  | CbDownloadFinished string

type_synonym bytes = "8 word list"

datatype qurl = fromLocalFile string

datatype icon = NoIcon | Critical

record message_box =
  mb_icon :: icon
  mb_windowTitle :: string
  mb_text :: string
  mb_detailedText :: string

text \<open>
  \<open>ApiSearch terms on_finished on_failed page\<close>, \<open>ApiGetThing id on_finished on_failed\<close>,
  \<open>ApiGetThingFiles id on_finished on_failed\<close> and \<open>ApiDownloadThingFile id on_finished\<close> are
  the four calls into the API client, with the arguments of the source. The download
  call is given no failure callback. \<open>NamedTemporaryFile path\<close>, \<open>FileWrite path data\<close> and
  \<open>FileClose path\<close> are the three calls on the temporary file, \<open>ReadLocalFile url\<close> is
  \<^verbatim>\<open>CuraApplication.getInstance().readLocalFile(url)\<close>, \<open>MessageBoxExec mb\<close> is
  \<^verbatim>\<open>mb.exec()\<close> on a message box with the given settings.
\<close>

datatype event =
    Emit signal
  | ApiSearch string callback callback int
  | ApiGetThing int callback callback
  | ApiGetThingFiles int callback callback
  | ApiDownloadThingFile int callback
  | NamedTemporaryFile string
  | FileWrite string bytes
  | FileClose string
  | ReadLocalFile qurl
  | MessageBoxExec message_box

subsection \<open>The host: Cura, the operating system, the Python runtime\<close>

text \<open>
  What the service asks of its surroundings and cannot compute itself.
  \<^item> \<open>getSupportedFileTypesRead\<close>: the dictionary (extension to description) of the mesh
    file handler of the running Cura.
  \<^item> \<open>temp_file_stem suffix\<close>: the directory, prefix and random characters that
    \<^verbatim>\<open>tempfile.NamedTemporaryFile(suffix=suffix, delete=False)\<close> chooses; the file it creates
    is named by the stem followed by the suffix. \<open>None\<close> when the operating system
    refuses to create that file (\<^verbatim>\<open>OSError\<close>).
  \<^item> \<open>str_value v\<close>: \<^verbatim>\<open>str(v)\<close> for a value that is not a string (for an object, the
    default representation with its address).
  \<^item> \<open>str_dict d\<close>: \<^verbatim>\<open>str(d)\<close> for a dictionary.
  \<^item> \<open>path_name p\<close>: \<^verbatim>\<open>pathlib.Path(p).name\<close>, the final component of the path \<open>p\<close>. It
    depends on the platform: \<^verbatim>\<open>Path\<close> is \<^verbatim>\<open>PosixPath\<close>, which cuts at \<^verbatim>\<open>/\<close>, or
    \<^verbatim>\<open>WindowsPath\<close>, which also cuts at the backslash and knows drives.
  \<^item> \<open>str_lower s\<close>: \<^verbatim>\<open>s.lower()\<close>. Python lowers by the Unicode tables, not only the
    letters of ASCII, and the result need not be as long as \<open>s\<close>.
\<close>

record host =
  getSupportedFileTypesRead :: "(string \<times> string) list"
  temp_file_stem :: "string \<Rightarrow> string option"
  str_value :: "py_value \<Rightarrow> string"
  str_dict :: "py_dict \<Rightarrow> string"
  path_name :: "string \<Rightarrow> string"
  str_lower :: "string \<Rightarrow> string"

definition py_str :: "host \<Rightarrow> py_value \<Rightarrow> string" where
  "py_str h v = (case v of PyStr s \<Rightarrow> s | _ \<Rightarrow> str_value h v)"

subsection \<open>File names: \<^verbatim>\<open>pathlib.Path(name).suffix.lower().strip(".")\<close>\<close>

text \<open>
  The \<^verbatim>\<open>suffix\<close> of a path is computed from its \<^verbatim>\<open>name\<close>, on every platform, as \<^verbatim>\<open>pathlib\<close>
  of CPython up to 3.13 does:
  \<^verbatim>\<open>
    name = self.name
    i = name.rfind('.')
    if 0 < i < len(name) - 1: return name[i:]
    else: return ''
  \<close>
  A dot that starts the name, or ends it, starts no suffix.
\<close>

definition path_suffix :: "host \<Rightarrow> string \<Rightarrow> string" where
  "path_suffix h p =
     (let name = path_name h p; i = rfind (CHR ''.'') name
      in if 0 < i \<and> i < int (length name) - 1 then drop (nat i) name else [])"

definition file_extension :: "host \<Rightarrow> string \<Rightarrow> string" where
  "file_extension h file_name = strip (CHR ''.'') (str_lower h (path_suffix h file_name))"

subsection \<open>The fields of the service\<close>

record service =
  self_things :: "JSONObject list"
  self_search_page :: int
  self_search_terms :: string
  self_thing_details :: "JSONObject option"
  self_thing_files :: "JSONObject list"
  self_is_downloading :: bool
  self_supported_file_types :: "string list"

definition init :: service where
  "init = \<lparr> self_things = [], self_search_page = 1, self_search_terms = [],
            self_thing_details = None, self_thing_files = [],
            self_is_downloading = False, self_supported_file_types = [] \<rparr>"

definition updateSupportedFileTypes :: "host \<Rightarrow> service \<Rightarrow> service \<times> event list" where
  "updateSupportedFileTypes h s =
     (let supported_file_types = getSupportedFileTypesRead h
      in (s\<lparr>self_supported_file_types := map fst supported_file_types\<rparr>, []))"

subsection \<open>Properties\<close>

definition things :: "service \<Rightarrow> py_dict list" where
  "things s = map dict_of (self_things s)"

definition activeThing :: "service \<Rightarrow> py_dict option" where
  "activeThing s =
     (case self_thing_details s of
        Some thing \<Rightarrow> Some (dict_of thing)
      | None \<Rightarrow> None)"

definition activeThingFiles :: "service \<Rightarrow> py_dict list" where
  "activeThingFiles s = map dict_of (self_thing_files s)"

definition hasActiveThing :: "service \<Rightarrow> bool" where
  "hasActiveThing s = (self_thing_details s \<noteq> None)"

definition isDownloading :: "service \<Rightarrow> bool" where
  "isDownloading s = self_is_downloading s"

subsection \<open>Slots\<close>

definition clearSearchResults :: "service \<Rightarrow> service \<times> event list" where
  "clearSearchResults s = (s\<lparr>self_things := []\<rparr>, [Emit thingsChanged])"

definition hideThingDetails :: "service \<Rightarrow> service \<times> event list" where
  "hideThingDetails s = (s\<lparr>self_thing_details := None\<rparr>, [Emit activeThingChanged])"

definition search :: "string \<Rightarrow> service \<Rightarrow> service \<times> event list" where
  "search search_terms s =
     (let (s1, e1) = clearSearchResults s;
          (s2, e2) = hideThingDetails s1;
          s3 = s2\<lparr>self_search_page := 1\<rparr>;
          s4 = s3\<lparr>self_search_terms := search_terms\<rparr>
      in (s4, e1 @ e2 @
            [ApiSearch (self_search_terms s4) CbSearchFinished CbRequestFailed
               (self_search_page s4)]))"

definition addSearchPage :: "service \<Rightarrow> service \<times> event list" where
  "addSearchPage s =
     (let s1 = s\<lparr>self_search_page := self_search_page s + 1\<rparr>
      in (s1, [ApiSearch (self_search_terms s1) CbSearchFinished CbRequestFailed
                 (self_search_page s1)]))"

definition showThingDetails :: "int \<Rightarrow> service \<Rightarrow> service \<times> event list" where
  "showThingDetails thing_id s =
     (s, [ApiGetThing thing_id CbThingDetailsFinished CbRequestFailed,
          ApiGetThingFiles thing_id CbThingFilesFinished CbRequestFailed])"

definition downloadThingFile :: "int \<Rightarrow> string \<Rightarrow> service \<Rightarrow> service \<times> event list" where
  "downloadThingFile file_id file_name s =
     (s\<lparr>self_is_downloading := True\<rparr>,
      [Emit downloadingStateChanged,
       ApiDownloadThingFile file_id (CbDownloadFinished file_name)])"

subsection \<open>Callbacks\<close>

definition onThingDetailsFinished :: "JSONObject \<Rightarrow> service \<Rightarrow> service \<times> event list" where
  "onThingDetailsFinished thing s =
     (s\<lparr>self_thing_details := Some thing\<rparr>, [Emit activeThingChanged])"

text \<open>
  The condition of the list comprehension for one file: \<^verbatim>\<open>f.name\<close> raises
  \<^verbatim>\<open>AttributeError\<close> when the object has no such attribute, \<^verbatim>\<open>pathlib.Path\<close> raises
  \<^verbatim>\<open>TypeError\<close> when it is not a string.
\<close>

definition is_supported :: "host \<Rightarrow> string list \<Rightarrow> JSONObject \<Rightarrow> py_error + bool" where
  "is_supported h supported f =
     (case getattr f ''name'' of
        Inl e \<Rightarrow> Inl e
      | Inr (PyStr name) \<Rightarrow> Inr (file_extension h name \<in> set supported)
      | Inr _ \<Rightarrow> Inl TypeError)"

text \<open>The comprehension itself, left to right; the first exception ends it.\<close>

fun filter_supported ::
  "host \<Rightarrow> string list \<Rightarrow> JSONObject list \<Rightarrow> py_error + JSONObject list" where
  "filter_supported h supported [] = Inr []"
| "filter_supported h supported (f # fs) =
     (case is_supported h supported f of
        Inl e \<Rightarrow> Inl e
      | Inr keep \<Rightarrow>
          (case filter_supported h supported fs of
             Inl e \<Rightarrow> Inl e
           | Inr rest \<Rightarrow> Inr (if keep then f # rest else rest)))"

definition onThingFilesFinished ::
  "host \<Rightarrow> JSONObject list \<Rightarrow> service \<Rightarrow> py_error + service \<times> event list" where
  "onThingFilesFinished h thing_files s =
     (case filter_supported h (self_supported_file_types s) thing_files of
        Inl e \<Rightarrow> Inl e
      | Inr kept \<Rightarrow> Inr (s\<lparr>self_thing_files := kept\<rparr>, [Emit activeThingFilesChanged]))"

definition onDownloadFinished ::
  "host \<Rightarrow> bytes \<Rightarrow> string \<Rightarrow> service \<Rightarrow> py_error + service \<times> event list" where
  "onDownloadFinished h file_bytes file_name s =
     (case temp_file_stem h file_name of
        None \<Rightarrow> Inl OSError
      | Some stem \<Rightarrow>
          (let path = stem @ file_name
           in Inr (s\<lparr>self_is_downloading := False\<rparr>,
                   [NamedTemporaryFile path, FileWrite path file_bytes, FileClose path,
                    ReadLocalFile (fromLocalFile path),
                    Emit downloadingStateChanged])))"

definition onSearchFinished :: "JSONObject list \<Rightarrow> service \<Rightarrow> service \<times> event list" where
  "onSearchFinished found s =
     (s\<lparr>self_things := self_things s @ found\<rparr>, [Emit thingsChanged])"

text \<open>
  The shared failure handler is a static method: it is given the optional error and
  nothing of the service.
\<close>

definition onRequestFailed :: "host \<Rightarrow> JSONObject option \<Rightarrow> py_error + event list" where
  "onRequestFailed h error =
     (let mb = \<lparr> mb_icon = NoIcon, mb_windowTitle = [], mb_text = [], mb_detailedText = [] \<rparr>;
          mb = mb\<lparr>mb_icon := Critical\<rparr>;
          mb = mb\<lparr>mb_windowTitle := ''Oh no!''\<rparr>
      in case (case error of
                 None \<Rightarrow> Inr (PyStr ''Unknown'')
               | Some err \<Rightarrow>
                   (if hasattr err ''error'' then getattr err ''error''
                    else Inr (PyObj (dict_of err)))) of
           Inl e \<Rightarrow> Inl e
         | Inr error_message \<Rightarrow>
             (let mb = mb\<lparr>mb_text :=
                         ''Thingiverse returned an error: '' @ py_str h error_message @ ''.''\<rparr>;
                  mb = mb\<lparr>mb_detailedText :=
                         (case error of Some err \<Rightarrow> str_dict h (dict_of err) | None \<Rightarrow> [])\<rparr>
              in Inr [MessageBoxExec mb]))"

subsection \<open>The service in use\<close>

text \<open>
  Everything that can happen to a service: the UI calls a slot, or the API client calls
  one of the callbacks it was given.
\<close>

datatype action =
    UpdateSupportedFileTypes
  | Search string
  | AddSearchPage
  | ShowThingDetails int
  | HideThingDetails
  | DownloadThingFile int string
  | OnThingDetailsFinished JSONObject
  | OnThingFilesFinished "JSONObject list"
  | OnDownloadFinished bytes string
  | OnSearchFinished "JSONObject list"
  | OnRequestFailed "JSONObject option"

fun perform :: "host \<Rightarrow> action \<Rightarrow> service \<Rightarrow> py_error + service \<times> event list" where
  "perform h UpdateSupportedFileTypes s = Inr (updateSupportedFileTypes h s)"
| "perform h (Search search_terms) s = Inr (search search_terms s)"
| "perform h AddSearchPage s = Inr (addSearchPage s)"
| "perform h (ShowThingDetails thing_id) s = Inr (showThingDetails thing_id s)"
| "perform h HideThingDetails s = Inr (hideThingDetails s)"
| "perform h (DownloadThingFile file_id file_name) s = Inr (downloadThingFile file_id file_name s)"
| "perform h (OnThingDetailsFinished thing) s = Inr (onThingDetailsFinished thing s)"
| "perform h (OnThingFilesFinished thing_files) s = onThingFilesFinished h thing_files s"
| "perform h (OnDownloadFinished file_bytes file_name) s =
     onDownloadFinished h file_bytes file_name s"
| "perform h (OnSearchFinished found) s = Inr (onSearchFinished found s)"
| "perform h (OnRequestFailed error) s =
     (case onRequestFailed h error of
        Inl e \<Rightarrow> Inl e
      | Inr es \<Rightarrow> Inr (s, es))"

text \<open>
  A history of actions, from a state and the events so far. An exception that leaves a
  slot or a callback ends the history.
\<close>

fun run :: "host \<Rightarrow> action list \<Rightarrow> service \<times> event list \<Rightarrow> py_error + service \<times> event list" where
  "run h [] w = Inr w"
| "run h (a # as) (s, log) =
     (case perform h a s of
        Inl e \<Rightarrow> Inl e
      | Inr (s', es) \<Rightarrow> run h as (s', log @ es))"

text \<open>
  The service after an action. An exception raised by a callback is raised before the
  callback has assigned a field: the service is then as it was.
\<close>

definition state_after :: "host \<Rightarrow> action \<Rightarrow> service \<Rightarrow> service" where
  "state_after h a s = (case perform h a s of Inl e \<Rightarrow> s | Inr (s', es) \<Rightarrow> s')"

text \<open>The terms and the page of the latest search request among the events, if there is one.\<close>

fun last_search_request :: "event list \<Rightarrow> (string \<times> int) option" where
  "last_search_request [] = None"
| "last_search_request (e # es) =
     (case last_search_request es of
        Some r \<Rightarrow> Some r
      | None \<Rightarrow>
          (case e of
             ApiSearch terms on_finished on_failed page \<Rightarrow> Some (terms, page)
           | _ \<Rightarrow> None))"

subsection \<open>Notions used to state the properties\<close>

text \<open>The name of a thing file, when the object has a \<^verbatim>\<open>name\<close> attribute that is a string.\<close>

definition file_name_of :: "JSONObject \<Rightarrow> string option" where
  "file_name_of f =
     (case getattr f ''name'' of
        Inr (PyStr name) \<Rightarrow> Some name
      | _ \<Rightarrow> None)"

definition has_supported_extension :: "host \<Rightarrow> string list \<Rightarrow> JSONObject \<Rightarrow> bool" where
  "has_supported_extension h supported f =
     (case file_name_of f of
        Some name \<Rightarrow> file_extension h name \<in> set supported
      | None \<Rightarrow> False)"

text \<open>
  The extension in the words of the specification, to compare with \<open>file_extension\<close>: the
  file name's suffix after its final dot, the dot left out, in lower case; none when the
  name has no dot. And the files the specification says are stored: those of the delivery
  whose extension, so worded, is among the cached types.
\<close>

definition claimed_extension :: "host \<Rightarrow> string \<Rightarrow> string" where
  "claimed_extension h file_name =
     (let i = rfind (CHR ''.'') file_name
      in if i < 0 then [] else str_lower h (drop (nat i + 1) file_name))"

definition claimed_files :: "host \<Rightarrow> service \<Rightarrow> JSONObject list \<Rightarrow> JSONObject list" where
  "claimed_files h s thing_files =
     filter (\<lambda>f. case file_name_of f of
                   Some name \<Rightarrow> claimed_extension h name \<in> set (self_supported_file_types s)
                 | None \<Rightarrow> False)
       thing_files"

text \<open>
  The service and the events so far agree on the search: the latest search request, if
  there is one, was made with the stored terms and the stored page.
\<close>

definition in_step :: "service \<Rightarrow> event list \<Rightarrow> bool" where
  "in_step s log =
     (case last_search_request log of
        None \<Rightarrow> True
      | Some (terms, page) \<Rightarrow> terms = self_search_terms s \<and> page = self_search_page s)"

subsection \<open>A host for the examples\<close>

text \<open>
  The examples run on a POSIX platform. There \<^verbatim>\<open>pathlib\<close> cuts the path at every \<^verbatim>\<open>/\<close>,
  drops the empty components and the \<^verbatim>\<open>.\<close> components, and \<^verbatim>\<open>name\<close> is the last component
  left, the empty string when none is.
\<close>

fun split_sep :: "char \<Rightarrow> string \<Rightarrow> string list" where
  "split_sep c [] = [[]]"
| "split_sep c (x # xs) =
     (if x = c then [] # split_sep c xs
      else (case split_sep c xs of
              [] \<Rightarrow> [[x]]
            | y # ys \<Rightarrow> (x # y) # ys))"

definition posix_path_name :: "string \<Rightarrow> string" where
  "posix_path_name p =
     (let parts = filter (\<lambda>x. x \<noteq> [] \<and> x \<noteq> ''.'') (split_sep (CHR ''/'') p)
      in if parts = [] then [] else last parts)"

text \<open>
  The strings of the examples are ASCII. On ASCII text \<^verbatim>\<open>str.lower\<close> turns each of the
  letters \<open>A\<close> to \<open>Z\<close> into its small letter and leaves every other character; the example
  host lowers like that, and is not meant for other text.
\<close>

definition ascii_lower_char :: "char \<Rightarrow> char" where
  "ascii_lower_char c =
     (let n = (of_char c :: nat)
      in if 65 \<le> n \<and> n \<le> 90 then char_of (n + 32) else c)"

definition ascii_lower :: "string \<Rightarrow> string" where
  "ascii_lower s = map ascii_lower_char s"

definition example_host :: host where
  "example_host =
     \<lparr> getSupportedFileTypesRead = [(''stl'', ''STL File''), (''obj'', ''Wavefront OBJ File'')],
       temp_file_stem = (\<lambda>suffix. Some ''/tmp/tmpq3k0_x7a''),
       str_value = (\<lambda>v. ''<object>''),
       str_dict = (\<lambda>d. ''{...}''),
       path_name = posix_path_name,
       str_lower = ascii_lower \<rparr>"

definition example_files :: "JSONObject list" where
  "example_files =
     [JSONObject [(''id'', PyInt 1), (''name'', PyStr ''cube.STL'')],
      JSONObject [(''id'', PyInt 2), (''name'', PyStr ''notes.pdf'')],
      JSONObject [(''id'', PyInt 3), (''name'', PyStr ''lid.obj'')]]"

section \<open>Properties of the service\<close>

subsection \<open>File extensions\<close>

lemma rfind_last:
  assumes "c \<notin> set ext"
  shows "rfind c (base @ c # ext) = int (length base)"
proof -
  have "takeWhile (\<lambda>x. x \<noteq> c) (rev ext @ c # rev base) = rev ext"
    using assms by (simp add: takeWhile_append)
  then show ?thesis
    by (simp add: rfind_def)
qed

text \<open>
  The four shapes of a final component. Only a dot with something before it and
  something after it starts a suffix.
\<close>

lemma path_suffix_dotted:
  assumes "path_name h p = base @ ''.'' @ ext"
    and "base \<noteq> []" and "ext \<noteq> []" and "CHR ''.'' \<notin> set ext"
  shows "path_suffix h p = ''.'' @ ext"
  using assms rfind_last [of "CHR ''.''" ext base]
  by (simp add: path_suffix_def)

lemma path_suffix_dot_first:
  assumes "path_name h p = ''.'' @ ext" and "CHR ''.'' \<notin> set ext"
  shows "path_suffix h p = []"
  using assms rfind_last [of "CHR ''.''" ext "[]"]
  by (simp add: path_suffix_def)

lemma path_suffix_dot_last:
  assumes "path_name h p = base @ ''.''"
  shows "path_suffix h p = []"
  using assms rfind_last [of "CHR ''.''" "[]" base]
  by (simp add: path_suffix_def)

lemma path_suffix_no_dot:
  assumes "CHR ''.'' \<notin> set (path_name h p)"
  shows "path_suffix h p = []"
  using assms by (simp add: path_suffix_def rfind_def)

lemma file_extension_examples:
  "file_extension example_host ''cube.STL'' = ''stl''"
  "file_extension example_host ''notes.pdf'' = ''pdf''"
  "file_extension example_host ''lid.obj'' = ''obj''"
  "file_extension example_host ''archive.tar.Gz'' = ''gz''"
  "file_extension example_host ''parts/lid.OBJ'' = ''obj''"
  "file_extension example_host ''.stl'' = []"
  "file_extension example_host ''cube.'' = []"
  "file_extension example_host ''README'' = []"
  by code_simp+

subsection \<open>The files of the active thing\<close>

lemma is_supported_named:
  "file_name_of f = Some name \<Longrightarrow>
   is_supported h supported f = Inr (file_extension h name \<in> set supported)"
  by (auto simp: file_name_of_def is_supported_def split: sum.splits py_value.splits)

lemma is_supported_unnamed:
  "file_name_of f = None \<Longrightarrow> \<exists>e. is_supported h supported f = Inl e"
  by (auto simp: file_name_of_def is_supported_def split: sum.splits py_value.splits)

lemma filter_supported_named:
  "\<forall>f \<in> set fs. file_name_of f \<noteq> None \<Longrightarrow>
   filter_supported h supported fs = Inr (filter (has_supported_extension h supported) fs)"
proof (induction fs)
  case Nil
  show ?case by simp
next
  case (Cons f fs)
  then obtain name where n: "file_name_of f = Some name" by auto
  have rest: "filter_supported h supported fs
                = Inr (filter (has_supported_extension h supported) fs)"
    using Cons by simp
  have keep: "has_supported_extension h supported f = (file_extension h name \<in> set supported)"
    by (simp add: has_supported_extension_def n)
  show ?case
    by (simp add: is_supported_named [OF n] rest keep)
qed

text \<open>
  A file without a name that is a string makes the callback raise; the stored list is
  then not assigned.
\<close>

lemma filter_supported_raises:
  "f \<in> set fs \<Longrightarrow> file_name_of f = None \<Longrightarrow> \<exists>e. filter_supported h supported fs = Inl e"
proof (induction fs)
  case Nil
  then show ?case by simp
next
  case (Cons g fs)
  show ?case
  proof (cases "file_name_of g")
    case None
    then obtain e where "is_supported h supported g = Inl e"
      using is_supported_unnamed by blast
    then show ?thesis by simp
  next
    case (Some name)
    with Cons have "f \<in> set fs" by auto
    then obtain e where "filter_supported h supported fs = Inl e"
      using Cons by blast
    then show ?thesis
      by (simp add: is_supported_named [OF Some])
  qed
qed

lemma example_files_named: "\<forall>f \<in> set example_files. file_name_of f \<noteq> None"
  by (simp add: example_files_def file_name_of_def getattr_def)

text \<open>
  C1, as the specification words it, does not hold. With \<open>stl\<close> among the cached types, a
  delivered file named \<open>.stl\<close> has, in those words, the extension \<open>stl\<close> (the suffix after
  its final dot) and would be stored; the callback stores nothing, because for
  \<^verbatim>\<open>pathlib\<close> a dot that starts the name starts no suffix (on every platform: the name has
  no separator, and the text is ASCII). And not every delivered list is filtered: an
  object without a \<open>name\<close> makes the callback raise \<^verbatim>\<open>AttributeError\<close>.
\<close>

theorem onThingFilesFinished_drops_dot_first_name:
  "claimed_extension example_host ''.stl'' = ''stl''
   \<and> self_supported_file_types (fst (updateSupportedFileTypes example_host init))
       = [''stl'', ''obj'']
   \<and> claimed_files example_host (fst (updateSupportedFileTypes example_host init))
        [JSONObject [(''id'', PyInt 9), (''name'', PyStr ''.stl'')]]
       = [JSONObject [(''id'', PyInt 9), (''name'', PyStr ''.stl'')]]
   \<and> onThingFilesFinished example_host
        [JSONObject [(''id'', PyInt 9), (''name'', PyStr ''.stl'')]]
        (fst (updateSupportedFileTypes example_host init))
       = Inr (init\<lparr>self_supported_file_types := [''stl'', ''obj''], self_thing_files := []\<rparr>,
              [Emit activeThingFilesChanged])
   \<and> onThingFilesFinished example_host [JSONObject [(''id'', PyInt 9)]]
        (fst (updateSupportedFileTypes example_host init))
       = Inl AttributeError"
proof -
  let ?s = "fst (updateSupportedFileTypes example_host init)"
  have claimed: "claimed_extension example_host ''.stl'' = ''stl''"
    by code_simp
  have sup: "self_supported_file_types ?s = [''stl'', ''obj'']"
    by (simp add: updateSupportedFileTypes_def example_host_def)
  have said: "claimed_files example_host ?s
                [JSONObject [(''id'', PyInt 9), (''name'', PyStr ''.stl'')]]
              = [JSONObject [(''id'', PyInt 9), (''name'', PyStr ''.stl'')]]"
    by (simp add: claimed_files_def file_name_of_def getattr_def claimed sup)
  have computed: "file_extension example_host ''.stl'' = []"
    by (rule file_extension_examples)
  have cached: "?s = init\<lparr>self_supported_file_types := [''stl'', ''obj'']\<rparr>"
    by (simp add: updateSupportedFileTypes_def example_host_def)
  have "onThingFilesFinished example_host
          [JSONObject [(''id'', PyInt 9), (''name'', PyStr ''.stl'')]] ?s
        = Inr (?s\<lparr>self_thing_files := []\<rparr>, [Emit activeThingFilesChanged])"
    by (simp add: onThingFilesFinished_def is_supported_def getattr_def computed sup)
  moreover have "?s\<lparr>self_thing_files := []\<rparr>
                   = init\<lparr>self_supported_file_types := [''stl'', ''obj''],
                          self_thing_files := []\<rparr>"
    by (simp only: cached)
  ultimately have stored:
    "onThingFilesFinished example_host
       [JSONObject [(''id'', PyInt 9), (''name'', PyStr ''.stl'')]] ?s
     = Inr (init\<lparr>self_supported_file_types := [''stl'', ''obj''],
                 self_thing_files := []\<rparr>,
            [Emit activeThingFilesChanged])"
    by (simp only:)
  have raised: "onThingFilesFinished example_host [JSONObject [(''id'', PyInt 9)]] ?s
                = Inl AttributeError"
    by (simp add: onThingFilesFinished_def is_supported_def getattr_def)
  show ?thesis
    using claimed sup said stored raised by (intro conjI)
qed

text \<open>
  C1, amended. For every list of thing files delivered to the files-success callback in
  which each file is an object with a name that is a string, the stored file list
  afterwards is the delivered list filtered, in order, to exactly the files whose extension
  is among the cached supported file types, and \<open>activeThingFiles\<close> shows exactly these: no
  file with another extension appears. The extension is the one \<open>file_extension\<close> computes
  as the source does: of the final component of the name, the text from its last dot on,
  if that dot has something before it and something after it, and else nothing; in lower
  case; the dots at both ends stripped. So a file whose final component is \<open>base.ext\<close> is
  kept if and only if \<open>.ext\<close> lowered and stripped is cached, and a file whose final
  component only starts with a dot is kept if and only if the empty text, lowered and
  stripped, is cached. The cache is what \<open>updateSupportedFileTypes\<close> stored: the keys of the
  host's dictionary.
\<close>

theorem onThingFilesFinished_keeps_supported_files:
  assumes named: "\<forall>f \<in> set thing_files. file_name_of f \<noteq> None"
  shows "\<exists>s'. onThingFilesFinished h thing_files s = Inr (s', [Emit activeThingFilesChanged])
           \<and> self_thing_files s'
               = filter (has_supported_extension h (self_supported_file_types s)) thing_files
           \<and> activeThingFiles s'
               = map dict_of
                   (filter (has_supported_extension h (self_supported_file_types s)) thing_files)
           \<and> (\<forall>f. f \<in> set (self_thing_files s') \<longleftrightarrow>
                  f \<in> set thing_files
                  \<and> (\<exists>name. file_name_of f = Some name
                        \<and> file_extension h name \<in> set (self_supported_file_types s)))
           \<and> (\<forall>f name base ext.
                  f \<in> set thing_files \<and> file_name_of f = Some name
                  \<and> path_name h name = base @ ''.'' @ ext
                  \<and> base \<noteq> [] \<and> ext \<noteq> [] \<and> CHR ''.'' \<notin> set ext
                  \<longrightarrow> (f \<in> set (self_thing_files s')
                         \<longleftrightarrow> strip (CHR ''.'') (str_lower h (''.'' @ ext))
                               \<in> set (self_supported_file_types s)))
           \<and> (\<forall>f name ext.
                  f \<in> set thing_files \<and> file_name_of f = Some name
                  \<and> path_name h name = ''.'' @ ext \<and> CHR ''.'' \<notin> set ext
                  \<longrightarrow> (f \<in> set (self_thing_files s')
                         \<longleftrightarrow> strip (CHR ''.'') (str_lower h [])
                               \<in> set (self_supported_file_types s)))
           \<and> self_supported_file_types s' = self_supported_file_types s
           \<and> self_supported_file_types (fst (updateSupportedFileTypes h s))
               = map fst (getSupportedFileTypesRead h)"
proof -
  let ?cache = "self_supported_file_types s"
  let ?kept = "filter (has_supported_extension h ?cache) thing_files"
  let ?s' = "s\<lparr>self_thing_files := ?kept\<rparr>"
  have run: "onThingFilesFinished h thing_files s = Inr (?s', [Emit activeThingFilesChanged])"
    by (simp add: onThingFilesFinished_def filter_supported_named [OF named])
  have mem: "f \<in> set ?kept \<longleftrightarrow>
               f \<in> set thing_files
               \<and> (\<exists>name. file_name_of f = Some name \<and> file_extension h name \<in> set ?cache)"
    for f
    by (auto simp: has_supported_extension_def split: option.splits)
  have dotted: "f \<in> set ?kept \<longleftrightarrow> strip (CHR ''.'') (str_lower h (''.'' @ ext)) \<in> set ?cache"
    if "f \<in> set thing_files" and "file_name_of f = Some name"
      and "path_name h name = base @ ''.'' @ ext"
      and "base \<noteq> []" and "ext \<noteq> []" and "CHR ''.'' \<notin> set ext" for f name base ext
  proof -
    have "file_extension h name = strip (CHR ''.'') (str_lower h (''.'' @ ext))"
      using path_suffix_dotted [OF that(3-6)] by (simp add: file_extension_def)
    then show ?thesis
      using that(1,2) mem [of f] by simp
  qed
  have dot_first: "f \<in> set ?kept \<longleftrightarrow> strip (CHR ''.'') (str_lower h []) \<in> set ?cache"
    if "f \<in> set thing_files" and "file_name_of f = Some name"
      and "path_name h name = ''.'' @ ext" and "CHR ''.'' \<notin> set ext" for f name ext
  proof -
    have "file_extension h name = strip (CHR ''.'') (str_lower h [])"
      using path_suffix_dot_first [OF that(3,4)] by (simp add: file_extension_def)
    then show ?thesis
      using that(1,2) mem [of f] by simp
  qed
  have cache: "self_supported_file_types (fst (updateSupportedFileTypes h s))
                 = map fst (getSupportedFileTypesRead h)"
    by (simp add: updateSupportedFileTypes_def)
  have files: "self_thing_files ?s' = ?kept"
    by simp
  have shown: "activeThingFiles ?s' = map dict_of ?kept"
    by (simp add: activeThingFiles_def)
  have types: "self_supported_file_types ?s' = ?cache"
    by simp
  show ?thesis
  proof (intro exI [of _ ?s'] conjI allI impI)
    show "onThingFilesFinished h thing_files s = Inr (?s', [Emit activeThingFilesChanged])"
      by (rule run)
    show "self_thing_files ?s' = ?kept"
      by (rule files)
    show "activeThingFiles ?s' = map dict_of ?kept"
      by (rule shown)
    show "f \<in> set (self_thing_files ?s') \<longleftrightarrow>
            f \<in> set thing_files
            \<and> (\<exists>name. file_name_of f = Some name \<and> file_extension h name \<in> set ?cache)" for f
      unfolding files by (rule mem)
    show "f \<in> set (self_thing_files ?s')
            \<longleftrightarrow> strip (CHR ''.'') (str_lower h (''.'' @ ext)) \<in> set ?cache"
      if "f \<in> set thing_files \<and> file_name_of f = Some name
          \<and> path_name h name = base @ ''.'' @ ext
          \<and> base \<noteq> [] \<and> ext \<noteq> [] \<and> CHR ''.'' \<notin> set ext" for f name base ext
      unfolding files using that dotted [of f name base ext] by blast
    show "f \<in> set (self_thing_files ?s')
            \<longleftrightarrow> strip (CHR ''.'') (str_lower h []) \<in> set ?cache"
      if "f \<in> set thing_files \<and> file_name_of f = Some name
          \<and> path_name h name = ''.'' @ ext \<and> CHR ''.'' \<notin> set ext" for f name ext
      unfolding files using that dot_first [of f name ext] by blast
    show "self_supported_file_types ?s' = ?cache"
      by (rule types)
    show "self_supported_file_types (fst (updateSupportedFileTypes h s))
            = map fst (getSupportedFileTypesRead h)"
      by (rule cache)
  qed
qed

theorem onThingFilesFinished_keeps_supported_files_witness:
  "onThingFilesFinished example_host example_files
     (fst (updateSupportedFileTypes example_host init))
     = Inr (init\<lparr>self_supported_file_types := [''stl'', ''obj''],
                 self_thing_files :=
                   [JSONObject [(''id'', PyInt 1), (''name'', PyStr ''cube.STL'')],
                    JSONObject [(''id'', PyInt 3), (''name'', PyStr ''lid.obj'')]]\<rparr>,
            [Emit activeThingFilesChanged])"
proof -
  let ?s = "fst (updateSupportedFileTypes example_host init)"
  have sup: "self_supported_file_types ?s = [''stl'', ''obj'']"
    by (simp add: updateSupportedFileTypes_def example_host_def)
  have kept: "filter (has_supported_extension example_host [''stl'', ''obj'']) example_files
              = [JSONObject [(''id'', PyInt 1), (''name'', PyStr ''cube.STL'')],
                 JSONObject [(''id'', PyInt 3), (''name'', PyStr ''lid.obj'')]]"
    by (simp add: example_files_def has_supported_extension_def file_name_of_def getattr_def
          file_extension_examples)
  obtain s' where
    s': "onThingFilesFinished example_host example_files ?s
           = Inr (s', [Emit activeThingFilesChanged])"
    and files: "self_thing_files s'
                  = filter (has_supported_extension example_host (self_supported_file_types ?s))
                      example_files"
    using onThingFilesFinished_keeps_supported_files
            [OF example_files_named, of example_host ?s]
    by blast
  have "s' = ?s\<lparr>self_thing_files := self_thing_files s'\<rparr>"
    using s' by (auto simp: onThingFilesFinished_def split: sum.splits)
  then show ?thesis
    using s' files kept sup
    by (simp add: updateSupportedFileTypes_def example_host_def init_def)
qed

subsection \<open>What each action does to the fields\<close>

lemma onRequestFailed_returns: "\<exists>es. onRequestFailed h error = Inr es"
proof (cases error)
  case None
  then show ?thesis by (simp add: onRequestFailed_def)
next
  case (Some err)
  then show ?thesis
    by (cases "map_of (dict_of err) ''error''")
       (simp_all add: onRequestFailed_def hasattr_def getattr_def)
qed

lemma onDownloadFinished_created:
  "temp_file_stem h file_name = Some stem \<Longrightarrow>
   onDownloadFinished h file_bytes file_name s
     = Inr (s\<lparr>self_is_downloading := False\<rparr>,
            [NamedTemporaryFile (stem @ file_name),
             FileWrite (stem @ file_name) file_bytes,
             FileClose (stem @ file_name),
             ReadLocalFile (fromLocalFile (stem @ file_name)),
             Emit downloadingStateChanged])"
  by (simp add: onDownloadFinished_def Let_def)

text \<open>
  When the temporary file cannot be created the callback raises before it has cleared
  the flag.
\<close>

lemma onDownloadFinished_refused:
  "temp_file_stem h file_name = None \<Longrightarrow>
   onDownloadFinished h file_bytes file_name s = Inl OSError"
  by (simp add: onDownloadFinished_def)

lemma state_after_slots:
  "state_after h UpdateSupportedFileTypes s
     = s\<lparr>self_supported_file_types := map fst (getSupportedFileTypesRead h)\<rparr>"
  "state_after h (Search terms) s
     = s\<lparr>self_things := [], self_thing_details := None, self_search_page := 1,
         self_search_terms := terms\<rparr>"
  "state_after h AddSearchPage s = s\<lparr>self_search_page := self_search_page s + 1\<rparr>"
  "state_after h (ShowThingDetails thing_id) s = s"
  "state_after h HideThingDetails s = s\<lparr>self_thing_details := None\<rparr>"
  "state_after h (DownloadThingFile file_id file_name) s = s\<lparr>self_is_downloading := True\<rparr>"
  by (simp_all add: state_after_def updateSupportedFileTypes_def search_def
        clearSearchResults_def hideThingDetails_def addSearchPage_def showThingDetails_def
        downloadThingFile_def)

lemma state_after_callbacks:
  "state_after h (OnThingDetailsFinished thing) s = s\<lparr>self_thing_details := Some thing\<rparr>"
  "state_after h (OnThingFilesFinished thing_files) s
     = (case filter_supported h (self_supported_file_types s) thing_files of
          Inl e \<Rightarrow> s
        | Inr kept \<Rightarrow> s\<lparr>self_thing_files := kept\<rparr>)"
  "state_after h (OnDownloadFinished file_bytes file_name) s
     = (case temp_file_stem h file_name of
          None \<Rightarrow> s
        | Some stem \<Rightarrow> s\<lparr>self_is_downloading := False\<rparr>)"
  "state_after h (OnSearchFinished found) s = s\<lparr>self_things := self_things s @ found\<rparr>"
  "state_after h (OnRequestFailed error) s = s"
proof -
  show "state_after h (OnThingDetailsFinished thing) s = s\<lparr>self_thing_details := Some thing\<rparr>"
    by (simp add: state_after_def onThingDetailsFinished_def)
  show "state_after h (OnThingFilesFinished thing_files) s
     = (case filter_supported h (self_supported_file_types s) thing_files of
          Inl e \<Rightarrow> s
        | Inr kept \<Rightarrow> s\<lparr>self_thing_files := kept\<rparr>)"
    by (simp add: state_after_def onThingFilesFinished_def split: sum.splits)
  show "state_after h (OnDownloadFinished file_bytes file_name) s
     = (case temp_file_stem h file_name of
          None \<Rightarrow> s
        | Some stem \<Rightarrow> s\<lparr>self_is_downloading := False\<rparr>)"
    by (simp add: state_after_def onDownloadFinished_def Let_def split: option.splits)
  show "state_after h (OnSearchFinished found) s = s\<lparr>self_things := self_things s @ found\<rparr>"
    by (simp add: state_after_def onSearchFinished_def)
  obtain es where "onRequestFailed h error = Inr es"
    using onRequestFailed_returns by blast
  then show "state_after h (OnRequestFailed error) s = s"
    by (simp add: state_after_def)
qed

subsection \<open>Searching\<close>

text \<open>
  C3. For every terms string and every state, \<open>search\<close> empties the results, clears the
  active thing (\<open>hasActiveThing\<close> is false, \<open>activeThing\<close> is absent), sets the page
  counter to 1, stores the terms and hands the API client exactly one search request, for
  page 1 with those terms. When the success callback then delivers a list of things, the
  results accessor shows exactly the delivered things and the active thing is still
  absent.
\<close>

theorem search_starts_new_session:
  "things (fst (search terms s)) = []
   \<and> activeThing (fst (search terms s)) = None
   \<and> hasActiveThing (fst (search terms s)) = False
   \<and> self_search_page (fst (search terms s)) = 1
   \<and> self_search_terms (fst (search terms s)) = terms
   \<and> snd (search terms s)
       = [Emit thingsChanged, Emit activeThingChanged,
          ApiSearch terms CbSearchFinished CbRequestFailed 1]
   \<and> things (fst (onSearchFinished found (fst (search terms s)))) = map dict_of found
   \<and> length (things (fst (onSearchFinished found (fst (search terms s))))) = length found
   \<and> activeThing (fst (onSearchFinished found (fst (search terms s)))) = None
   \<and> hasActiveThing (fst (onSearchFinished found (fst (search terms s)))) = False"
  by (simp add: search_def clearSearchResults_def hideThingDetails_def onSearchFinished_def
        things_def activeThing_def hasActiveThing_def)

theorem search_starts_new_session_witness:
  "snd (search ''benchy''
          (init\<lparr>self_things := [JSONObject [(''id'', PyInt 4)]],
                self_thing_details := Some (JSONObject [(''id'', PyInt 4)])\<rparr>))
     = [Emit thingsChanged, Emit activeThingChanged,
        ApiSearch ''benchy'' CbSearchFinished CbRequestFailed 1]
   \<and> things (fst (onSearchFinished [JSONObject [(''id'', PyInt 5)]]
        (fst (search ''benchy''
          (init\<lparr>self_things := [JSONObject [(''id'', PyInt 4)]],
                self_thing_details := Some (JSONObject [(''id'', PyInt 4)])\<rparr>)))))
     = [[(''id'', PyInt 5)]]"
  using search_starts_new_session
    [of "''benchy''"
        "init\<lparr>self_things := [JSONObject [(''id'', PyInt 4)]],
              self_thing_details := Some (JSONObject [(''id'', PyInt 4)])\<rparr>"
        "[JSONObject [(''id'', PyInt 5)]]"]
  by simp

lemma last_search_request_append:
  "last_search_request (xs @ ys)
     = (case last_search_request ys of
          Some r \<Rightarrow> Some r
        | None \<Rightarrow> last_search_request xs)"
  by (induction xs) (auto split: option.splits)

lemma in_step_frame:
  assumes "in_step s log" and "last_search_request es = None"
    and "self_search_terms s' = self_search_terms s"
    and "self_search_page s' = self_search_page s"
  shows "in_step s' (log @ es)"
  using assms by (auto simp: in_step_def last_search_request_append split: option.splits)

lemma in_step_request:
  assumes "last_search_request es = Some (self_search_terms s', self_search_page s')"
  shows "in_step s' (log @ es)"
  using assms by (simp add: in_step_def last_search_request_append)

lemma perform_in_step:
  assumes step: "perform h a s = Inr (s', es)" and inv: "in_step s log"
  shows "in_step s' (log @ es)"
proof (cases a)
  case UpdateSupportedFileTypes
  with step show ?thesis
    by (intro in_step_frame [OF inv]) (auto simp: updateSupportedFileTypes_def)
next
  case (Search terms)
  with step show ?thesis
    by (intro in_step_request)
       (auto simp: search_def clearSearchResults_def hideThingDetails_def)
next
  case AddSearchPage
  with step show ?thesis
    by (intro in_step_request) (auto simp: addSearchPage_def)
next
  case (ShowThingDetails thing_id)
  with step show ?thesis
    by (intro in_step_frame [OF inv]) (auto simp: showThingDetails_def)
next
  case HideThingDetails
  with step show ?thesis
    by (intro in_step_frame [OF inv]) (auto simp: hideThingDetails_def)
next
  case (DownloadThingFile file_id file_name)
  with step show ?thesis
    by (intro in_step_frame [OF inv]) (auto simp: downloadThingFile_def)
next
  case (OnThingDetailsFinished thing)
  with step show ?thesis
    by (intro in_step_frame [OF inv]) (auto simp: onThingDetailsFinished_def)
next
  case (OnThingFilesFinished thing_files)
  with step show ?thesis
    by (intro in_step_frame [OF inv])
       (auto simp: onThingFilesFinished_def split: sum.splits)
next
  case (OnDownloadFinished file_bytes file_name)
  with step show ?thesis
    by (intro in_step_frame [OF inv])
       (auto simp: onDownloadFinished_def Let_def split: option.splits)
next
  case (OnSearchFinished found)
  with step show ?thesis
    by (intro in_step_frame [OF inv]) (auto simp: onSearchFinished_def)
next
  case (OnRequestFailed error)
  obtain es' where "onRequestFailed h error = Inr es'"
    using onRequestFailed_returns by blast
  moreover have "last_search_request es' = None"
    using calculation
    by (auto simp: onRequestFailed_def Let_def split: sum.splits option.splits if_splits)
  ultimately show ?thesis
    using step OnRequestFailed by (intro in_step_frame [OF inv]) auto
qed

text \<open>
  Whatever the UI and the API client have done to a service since it was built, its
  stored terms and page are those of the latest search request.
\<close>

lemma run_in_step:
  "run h acts (s, log) = Inr (s', log') \<Longrightarrow> in_step s log \<Longrightarrow> in_step s' log'"
proof (induction acts arbitrary: s log)
  case Nil
  then show ?case by simp
next
  case (Cons a acts)
  then obtain s1 es where step: "perform h a s = Inr (s1, es)"
    and rest: "run h acts (s1, log @ es) = Inr (s', log')"
    by (auto split: sum.splits)
  have "in_step s1 (log @ es)"
    using perform_in_step [OF step] Cons.prems(2) .
  then show ?case
    using Cons.IH [OF rest] by simp
qed

text \<open>
  C4. For every state, \<open>addSearchPage\<close> adds exactly one to the stored page counter, keeps
  the stored terms and hands the API client one search request, with the stored terms and
  the new page. In every state a service can reach from its construction, that page is
  one greater than the page of the request before, and the terms are the same. On
  success the delivered things are appended to the results: everything held before is
  still there, in place, in front of them.
\<close>

theorem addSearchPage_requests_next_page:
  "self_search_page (fst (addSearchPage s)) = self_search_page s + 1
   \<and> self_search_terms (fst (addSearchPage s)) = self_search_terms s
   \<and> snd (addSearchPage s)
       = [ApiSearch (self_search_terms s) CbSearchFinished CbRequestFailed
            (self_search_page s + 1)]
   \<and> (\<forall>h acts log terms page.
         run h acts (init, []) = Inr (s, log) \<and> last_search_request log = Some (terms, page)
         \<longrightarrow> last_search_request (log @ snd (addSearchPage s)) = Some (terms, page + 1))
   \<and> self_things (fst (onSearchFinished found s)) = self_things s @ found
   \<and> things (fst (onSearchFinished found s)) = things s @ map dict_of found
   \<and> take (length (self_things s)) (self_things (fst (onSearchFinished found s)))
       = self_things s"
proof -
  have next_page: "last_search_request (log @ snd (addSearchPage s)) = Some (terms, page + 1)"
    if "run h acts (init, []) = Inr (s, log)" and "last_search_request log = Some (terms, page)"
    for h acts log terms page
  proof -
    have "in_step init []"
      by (simp add: in_step_def)
    then have "in_step s log"
      using run_in_step that(1) by blast
    then have "terms = self_search_terms s \<and> page = self_search_page s"
      using that(2) by (simp add: in_step_def)
    then show ?thesis
      by (simp add: last_search_request_append addSearchPage_def)
  qed
  have "self_search_page (fst (addSearchPage s)) = self_search_page s + 1"
    by (simp add: addSearchPage_def)
  moreover have "self_search_terms (fst (addSearchPage s)) = self_search_terms s"
    by (simp add: addSearchPage_def)
  moreover have "snd (addSearchPage s)
       = [ApiSearch (self_search_terms s) CbSearchFinished CbRequestFailed
            (self_search_page s + 1)]"
    by (simp add: addSearchPage_def)
  moreover have "self_things (fst (onSearchFinished found s)) = self_things s @ found"
    by (simp add: onSearchFinished_def)
  moreover have "things (fst (onSearchFinished found s)) = things s @ map dict_of found"
    by (simp add: onSearchFinished_def things_def)
  moreover have "take (length (self_things s)) (self_things (fst (onSearchFinished found s)))
       = self_things s"
    by (simp add: onSearchFinished_def)
  ultimately show ?thesis
    using next_page by blast
qed

theorem addSearchPage_requests_next_page_witness:
  "run example_host [Search ''benchy'', OnSearchFinished [JSONObject [(''id'', PyInt 5)]]]
     (init, [])
     = Inr (init\<lparr>self_things := [JSONObject [(''id'', PyInt 5)]],
                 self_search_terms := ''benchy''\<rparr>,
            [Emit thingsChanged, Emit activeThingChanged,
             ApiSearch ''benchy'' CbSearchFinished CbRequestFailed 1,
             Emit thingsChanged])
   \<and> last_search_request
        ([Emit thingsChanged, Emit activeThingChanged,
          ApiSearch ''benchy'' CbSearchFinished CbRequestFailed 1,
          Emit thingsChanged]
         @ snd (addSearchPage (init\<lparr>self_things := [JSONObject [(''id'', PyInt 5)]],
                                     self_search_terms := ''benchy''\<rparr>)))
     = Some (''benchy'', 2)"
proof -
  let ?s = "init\<lparr>self_things := [JSONObject [(''id'', PyInt 5)]],
                 self_search_terms := ''benchy''\<rparr>"
  let ?log = "[Emit thingsChanged, Emit activeThingChanged,
               ApiSearch ''benchy'' CbSearchFinished CbRequestFailed 1,
               Emit thingsChanged]"
  have history: "run example_host
                   [Search ''benchy'', OnSearchFinished [JSONObject [(''id'', PyInt 5)]]]
                   (init, []) = Inr (?s, ?log)"
    by (simp add: search_def clearSearchResults_def hideThingDetails_def onSearchFinished_def
          init_def)
  have latest: "last_search_request ?log = Some (''benchy'', 1)"
    by simp
  show ?thesis
    using addSearchPage_requests_next_page [of ?s] history latest by fastforce
qed

subsection \<open>The results list\<close>

text \<open>
  C8. Every slot and every callback either leaves the results list as it is, or appends
  the newly found things at its end (the search callback), or replaces it by the empty
  list (a new search). Nothing removes or reorders some of the things held.
\<close>

theorem results_grow_or_are_cleared:
  "self_things (state_after h a s) = self_things s
   \<or> (\<exists>found. a = OnSearchFinished found
         \<and> self_things (state_after h a s) = self_things s @ found)
   \<or> (\<exists>terms. a = Search terms \<and> self_things (state_after h a s) = [])"
proof (cases a)
  case (OnThingFilesFinished thing_files)
  then show ?thesis
    by (simp add: state_after_callbacks split: sum.splits)
next
  case (OnDownloadFinished file_bytes file_name)
  then show ?thesis
    by (simp add: state_after_callbacks split: option.splits)
qed (simp_all add: state_after_slots state_after_callbacks)

theorem results_grow_or_are_cleared_witness:
  "self_things (state_after example_host (OnSearchFinished [JSONObject [(''id'', PyInt 6)]])
                  (init\<lparr>self_things := [JSONObject [(''id'', PyInt 5)]]\<rparr>))
     = [JSONObject [(''id'', PyInt 5)], JSONObject [(''id'', PyInt 6)]]
   \<and> self_things (state_after example_host (Search ''vase'')
                  (init\<lparr>self_things := [JSONObject [(''id'', PyInt 5)]]\<rparr>)) = []
   \<and> self_things (state_after example_host HideThingDetails
                  (init\<lparr>self_things := [JSONObject [(''id'', PyInt 5)]]\<rparr>))
     = [JSONObject [(''id'', PyInt 5)]]"
  using results_grow_or_are_cleared
    [of example_host "OnSearchFinished [JSONObject [(''id'', PyInt 6)]]"
        "init\<lparr>self_things := [JSONObject [(''id'', PyInt 5)]]\<rparr>"]
  by (simp add: state_after_slots state_after_callbacks)

subsection \<open>Hiding the details\<close>

text \<open>
  C9. For every state, \<open>hideThingDetails\<close> clears the active thing at once: afterwards
  \<open>activeThing\<close> is absent and \<open>hasActiveThing\<close> is false, and the call emits
  \<open>activeThingChanged\<close> exactly once and does nothing else to the outside.
\<close>

theorem hideThingDetails_clears_active_thing:
  "activeThing (fst (hideThingDetails s)) = None
   \<and> hasActiveThing (fst (hideThingDetails s)) = False
   \<and> snd (hideThingDetails s) = [Emit activeThingChanged]
   \<and> count_list (snd (hideThingDetails s)) (Emit activeThingChanged) = 1"
  by (simp add: hideThingDetails_def activeThing_def hasActiveThing_def)

theorem hideThingDetails_clears_active_thing_witness:
  "hasActiveThing (init\<lparr>self_thing_details := Some (JSONObject [(''id'', PyInt 4)])\<rparr>) = True
   \<and> hasActiveThing
        (fst (hideThingDetails
               (init\<lparr>self_thing_details := Some (JSONObject [(''id'', PyInt 4)])\<rparr>))) = False
   \<and> snd (hideThingDetails
             (init\<lparr>self_thing_details := Some (JSONObject [(''id'', PyInt 4)])\<rparr>))
       = [Emit activeThingChanged]"
  using hideThingDetails_clears_active_thing
    [of "init\<lparr>self_thing_details := Some (JSONObject [(''id'', PyInt 4)])\<rparr>"]
  by (simp add: hasActiveThing_def)

text \<open>
  C10. For every state, \<open>hideThingDetails\<close> leaves the stored thing files as they are:
  \<open>activeThingFiles\<close> still shows the filtered files of the thing shown before, and the call
  does not emit \<open>activeThingFilesChanged\<close>. No slot and no callback but the files-success
  callback changes what \<open>activeThingFiles\<close> shows; a newly built service shows none.
\<close>

theorem hideThingDetails_keeps_files:
  "self_thing_files (fst (hideThingDetails s)) = self_thing_files s
   \<and> activeThingFiles (fst (hideThingDetails s)) = activeThingFiles s
   \<and> Emit activeThingFilesChanged \<notin> set (snd (hideThingDetails s))
   \<and> (\<forall>h a. (\<forall>thing_files. a \<noteq> OnThingFilesFinished thing_files) \<longrightarrow>
          activeThingFiles (state_after h a s) = activeThingFiles s)
   \<and> activeThingFiles init = []"
proof -
  have frame: "activeThingFiles (state_after h a s) = activeThingFiles s"
    if "\<forall>thing_files. a \<noteq> OnThingFilesFinished thing_files" for h a
  proof (cases a)
    case (OnThingFilesFinished thing_files)
    with that show ?thesis by simp
  next
    case (OnDownloadFinished file_bytes file_name)
    then show ?thesis
      by (simp add: state_after_callbacks activeThingFiles_def split: option.splits)
  qed (simp_all add: state_after_slots state_after_callbacks activeThingFiles_def)
  have "self_thing_files (fst (hideThingDetails s)) = self_thing_files s"
    by (simp add: hideThingDetails_def)
  moreover have "activeThingFiles (fst (hideThingDetails s)) = activeThingFiles s"
    by (simp add: hideThingDetails_def activeThingFiles_def)
  moreover have "Emit activeThingFilesChanged \<notin> set (snd (hideThingDetails s))"
    by (simp add: hideThingDetails_def)
  moreover have "activeThingFiles init = []"
    by (simp add: activeThingFiles_def init_def)
  ultimately show ?thesis
    using frame by blast
qed

theorem hideThingDetails_keeps_files_witness:
  "activeThingFiles (fst (hideThingDetails (init\<lparr>self_thing_files := example_files\<rparr>)))
     = map dict_of example_files
   \<and> activeThingFiles (state_after example_host (Search ''vase'')
                         (init\<lparr>self_thing_files := example_files\<rparr>))
     = map dict_of example_files"
  using hideThingDetails_keeps_files [of "init\<lparr>self_thing_files := example_files\<rparr>"]
  by (simp add: activeThingFiles_def)

subsection \<open>Downloading a file\<close>

text \<open>
  C5. For every file id, file name and received bytes: \<open>downloadThingFile\<close> sets the
  downloading flag, emits \<open>downloadingStateChanged\<close> and then hands the download to the API
  client, with a callback that remembers the file name. When that callback is called with
  the bytes and the host has created the temporary file, the bytes are written to that
  file, whose path ends with the whole file name and so with its extension; Cura is told
  to read the file at that path; the flag is cleared; \<open>downloadingStateChanged\<close> is emitted.
\<close>

theorem downloadThingFile_loads_the_file:
  assumes created: "temp_file_stem h file_name = Some stem"
  shows "downloadThingFile file_id file_name s
           = (s\<lparr>self_is_downloading := True\<rparr>,
              [Emit downloadingStateChanged,
               ApiDownloadThingFile file_id (CbDownloadFinished file_name)])
         \<and> isDownloading (fst (downloadThingFile file_id file_name s)) = True
         \<and> onDownloadFinished h file_bytes file_name s1
             = Inr (s1\<lparr>self_is_downloading := False\<rparr>,
                    [NamedTemporaryFile (stem @ file_name),
                     FileWrite (stem @ file_name) file_bytes,
                     FileClose (stem @ file_name),
                     ReadLocalFile (fromLocalFile (stem @ file_name)),
                     Emit downloadingStateChanged])
         \<and> isDownloading (s1\<lparr>self_is_downloading := False\<rparr>) = False
         \<and> suffix file_name (stem @ file_name)
         \<and> (\<forall>base ext. file_name = base @ ''.'' @ ext \<longrightarrow>
                suffix (''.'' @ ext) (stem @ file_name))"
proof -
  have "suffix (''.'' @ ext) (stem @ file_name)" if "file_name = base @ ''.'' @ ext" for base ext
  proof -
    have "stem @ file_name = (stem @ base) @ ''.'' @ ext"
      using that by simp
    then show ?thesis
      unfolding suffix_def by blast
  qed
  then show ?thesis
    using onDownloadFinished_created [OF created]
    by (simp add: downloadThingFile_def isDownloading_def suffix_def)
qed

theorem downloadThingFile_loads_the_file_witness:
  "temp_file_stem example_host ''cube.stl'' = Some ''/tmp/tmpq3k0_x7a''
   \<and> onDownloadFinished example_host [83, 84, 76] ''cube.stl''
        (fst (downloadThingFile 7 ''cube.stl'' init))
       = Inr (init,
              [NamedTemporaryFile ''/tmp/tmpq3k0_x7acube.stl'',
               FileWrite ''/tmp/tmpq3k0_x7acube.stl'' [83, 84, 76],
               FileClose ''/tmp/tmpq3k0_x7acube.stl'',
               ReadLocalFile (fromLocalFile ''/tmp/tmpq3k0_x7acube.stl''),
               Emit downloadingStateChanged])
   \<and> suffix ''.stl'' ''/tmp/tmpq3k0_x7acube.stl''"
proof -
  let ?s1 = "fst (downloadThingFile 7 ''cube.stl'' init)"
  have created: "temp_file_stem example_host ''cube.stl'' = Some ''/tmp/tmpq3k0_x7a''"
    by (simp add: example_host_def)
  have name: "''cube.stl'' = ''cube'' @ ''.'' @ ''stl''"
    by simp
  note loaded = downloadThingFile_loads_the_file [OF created, of 7 init "[83, 84, 76]" ?s1]
  from loaded have finished:
    "onDownloadFinished example_host [83, 84, 76] ''cube.stl'' ?s1
       = Inr (?s1\<lparr>self_is_downloading := False\<rparr>,
              [NamedTemporaryFile (''/tmp/tmpq3k0_x7a'' @ ''cube.stl''),
               FileWrite (''/tmp/tmpq3k0_x7a'' @ ''cube.stl'') [83, 84, 76],
               FileClose (''/tmp/tmpq3k0_x7a'' @ ''cube.stl''),
               ReadLocalFile (fromLocalFile (''/tmp/tmpq3k0_x7a'' @ ''cube.stl'')),
               Emit downloadingStateChanged])"
    by (elim conjE)
  from loaded have "\<forall>base ext. ''cube.stl'' = base @ ''.'' @ ext \<longrightarrow>
                      suffix (''.'' @ ext) (''/tmp/tmpq3k0_x7a'' @ ''cube.stl'')"
    by (elim conjE)
  then have ends: "suffix (''.'' @ ''stl'') (''/tmp/tmpq3k0_x7a'' @ ''cube.stl'')"
    using name by blast
  have restored: "?s1\<lparr>self_is_downloading := False\<rparr> = init"
    by (simp add: downloadThingFile_def init_def)
  show ?thesis
    using created finished ends unfolding restored by simp
qed

text \<open>
  The downloading flag, once set, is cleared by nothing but the download callback that
  gets its temporary file.
\<close>

lemma flag_cleared_only_by_download_finished:
  assumes "self_is_downloading s" and "\<not> self_is_downloading (state_after h a s)"
  shows "\<exists>file_bytes file_name stem.
           a = OnDownloadFinished file_bytes file_name \<and> temp_file_stem h file_name = Some stem"
proof (cases a)
  case (OnThingFilesFinished thing_files)
  with assms show ?thesis
    by (simp add: state_after_callbacks split: sum.splits)
next
  case (OnDownloadFinished file_bytes file_name)
  with assms show ?thesis
    by (simp add: state_after_callbacks split: option.splits)
qed (use assms in \<open>simp_all add: state_after_slots state_after_callbacks\<close>)

lemma perform_state_after: "perform h a s = Inr (s', es) \<Longrightarrow> state_after h a s = s'"
  by (simp add: state_after_def)

text \<open>
  So the flag stays set through every history in which no download callback arrives,
  whatever else the UI and the API client do.
\<close>

lemma flag_survives_without_download_finished:
  assumes "self_is_downloading s"
    and "\<forall>a \<in> set acts. \<forall>file_bytes file_name. a \<noteq> OnDownloadFinished file_bytes file_name"
    and "run h acts (s, log) = Inr (s', log')"
  shows "self_is_downloading s'"
  using assms
proof (induction acts arbitrary: s log)
  case Nil
  then show ?case by simp
next
  case (Cons a acts)
  from Cons.prems(3) obtain s1 es where step: "perform h a s = Inr (s1, es)"
    and rest: "run h acts (s1, log @ es) = Inr (s', log')"
    by (auto split: sum.splits)
  have "self_is_downloading s1"
  proof (rule ccontr)
    assume "\<not> self_is_downloading s1"
    then have "\<not> self_is_downloading (state_after h a s)"
      using perform_state_after [OF step] by simp
    then obtain file_bytes file_name where "a = OnDownloadFinished file_bytes file_name"
      using flag_cleared_only_by_download_finished [OF Cons.prems(1)] by blast
    with Cons.prems(2) show False by simp
  qed
  moreover have "\<forall>a \<in> set acts. \<forall>file_bytes file_name. a \<noteq> OnDownloadFinished file_bytes file_name"
    using Cons.prems(2) by simp
  ultimately show ?case
    using Cons.IH rest by blast
qed

text \<open>
  C2. The downloading flag is true right after \<open>downloadThingFile\<close>, but a download that
  fails leaves it true for good. The download is handed to the API client without a
  failure callback; and when the shared failure handler runs, here with no error object,
  the service is as \<open>downloadThingFile\<close> left it: \<open>isDownloading\<close> is still true after the
  failure has been reported.
\<close>

theorem flag_stays_set_when_download_fails:
  "run example_host [DownloadThingFile 7 ''cube.stl'', OnRequestFailed None] (init, [])
     = Inr (init\<lparr>self_is_downloading := True\<rparr>,
            [Emit downloadingStateChanged,
             ApiDownloadThingFile 7 (CbDownloadFinished ''cube.stl''),
             MessageBoxExec
               \<lparr> mb_icon = Critical, mb_windowTitle = ''Oh no!'',
                 mb_text = ''Thingiverse returned an error: Unknown.'',
                 mb_detailedText = [] \<rparr>])
   \<and> isDownloading (init\<lparr>self_is_downloading := True\<rparr>) = True"
  by (simp add: downloadThingFile_def onRequestFailed_def py_str_def isDownloading_def)

subsection \<open>The failure handler\<close>

text \<open>
  C6. For every call of the shared failure handler, with an error object or without, the
  handler returns without raising and runs exactly one dialog. The dialog's text is the
  fixed sentence around the message: the value of the error's \<open>error\<close> attribute when the
  object has one, else the error object itself, else (no error object) \<open>Unknown\<close>. Its
  detailed text is the dump of the error object's whole dictionary, or empty when no
  error object was passed.
\<close>

theorem onRequestFailed_shows_one_dialog:
  "onRequestFailed h error
     = Inr [MessageBoxExec
              \<lparr> mb_icon = Critical,
                mb_windowTitle = ''Oh no!'',
                mb_text = ''Thingiverse returned an error: ''
                  @ (case error of
                       None \<Rightarrow> ''Unknown''
                     | Some err \<Rightarrow>
                         (case map_of (dict_of err) ''error'' of
                            Some message \<Rightarrow> py_str h message
                          | None \<Rightarrow> py_str h (PyObj (dict_of err))))
                  @ ''.'',
                mb_detailedText =
                  (case error of None \<Rightarrow> [] | Some err \<Rightarrow> str_dict h (dict_of err)) \<rparr>]"
proof (cases error)
  case None
  then show ?thesis
    by (simp add: onRequestFailed_def py_str_def)
next
  case (Some err)
  show ?thesis
  proof (cases "map_of (dict_of err) ''error''")
    case None
    with Some show ?thesis
      by (simp add: onRequestFailed_def hasattr_def)
  next
    case (Some message)
    with \<open>error = Some err\<close> show ?thesis
      by (simp add: onRequestFailed_def hasattr_def getattr_def)
  qed
qed

theorem onRequestFailed_shows_one_dialog_witness:
  "onRequestFailed example_host (Some (JSONObject [(''error'', PyStr ''Not Found'')]))
     = Inr [MessageBoxExec
              \<lparr> mb_icon = Critical, mb_windowTitle = ''Oh no!'',
                mb_text = ''Thingiverse returned an error: Not Found.'',
                mb_detailedText = ''{...}'' \<rparr>]
   \<and> onRequestFailed example_host (Some (JSONObject [(''code'', PyInt 404)]))
     = Inr [MessageBoxExec
              \<lparr> mb_icon = Critical, mb_windowTitle = ''Oh no!'',
                mb_text = ''Thingiverse returned an error: <object>.'',
                mb_detailedText = ''{...}'' \<rparr>]
   \<and> onRequestFailed example_host None
     = Inr [MessageBoxExec
              \<lparr> mb_icon = Critical, mb_windowTitle = ''Oh no!'',
                mb_text = ''Thingiverse returned an error: Unknown.'',
                mb_detailedText = [] \<rparr>]"
  using onRequestFailed_shows_one_dialog
      [of example_host "Some (JSONObject [(''error'', PyStr ''Not Found'')])"]
    onRequestFailed_shows_one_dialog
      [of example_host "Some (JSONObject [(''code'', PyInt 404)])"]
    onRequestFailed_shows_one_dialog [of example_host None]
  by (simp add: py_str_def example_host_def)

text \<open>
  C7. The shared failure handler changes no field of the service: for every state and
  every optional error object, after the handler has run the results, the search terms,
  the page counter, the active thing, its files and the downloading flag are what they
  were before. Nothing that was in flight is rolled back.
\<close>

theorem onRequestFailed_changes_no_field:
  "\<exists>s' es. perform h (OnRequestFailed error) s = Inr (s', es)
     \<and> self_things s' = self_things s \<and> things s' = things s
     \<and> self_search_terms s' = self_search_terms s
     \<and> self_search_page s' = self_search_page s
     \<and> self_thing_details s' = self_thing_details s \<and> activeThing s' = activeThing s
     \<and> self_thing_files s' = self_thing_files s \<and> activeThingFiles s' = activeThingFiles s
     \<and> self_is_downloading s' = self_is_downloading s \<and> isDownloading s' = isDownloading s
     \<and> s' = s"
proof -
  obtain es where "onRequestFailed h error = Inr es"
    using onRequestFailed_returns by blast
  then have "perform h (OnRequestFailed error) s = Inr (s, es)"
    by simp
  then show ?thesis by blast
qed

theorem onRequestFailed_changes_no_field_witness:
  "\<exists>es. perform example_host (OnRequestFailed None)
          (init\<lparr>self_search_terms := ''benchy'', self_search_page := 3,
                self_is_downloading := True\<rparr>)
        = Inr (init\<lparr>self_search_terms := ''benchy'', self_search_page := 3,
                    self_is_downloading := True\<rparr>, es)"
  using onRequestFailed_changes_no_field
    [of example_host None
        "init\<lparr>self_search_terms := ''benchy'', self_search_page := 3,
              self_is_downloading := True\<rparr>"]
  by blast

end
